theory Spec2Isabelle
  imports Main
begin

section \<open>Python values, faults and the byte transport\<close>

text \<open>
  The module \<open>diesel/protocols/redis.py\<close> is a RESP client. Byte strings are
  lists of 8-bit characters; Python text (\<open>str\<close>) is a list of code points.
\<close>

type_synonym bytes = string
type_synonym ustr = "nat list"

definition ascii :: "string \<Rightarrow> ustr" where
  "ascii s = map of_char s"

datatype pyval =
    PNone
  | PBool bool
  | PInt int
  | PBytes bytes
  | PStr ustr
  | PList "pyval list"

text \<open>Truth value of a Python object, as \<open>if r:\<close> tests it.\<close>

fun truthy :: "pyval \<Rightarrow> bool" where
  "truthy PNone = False"
| "truthy (PBool b) = b"
| "truthy (PInt i) = (i \<noteq> 0)"
| "truthy (PBytes b) = (b \<noteq> [])"
| "truthy (PStr s) = (s \<noteq> [])"
| "truthy (PList xs) = (xs \<noteq> [])"

text \<open>
  Every exception the modelled code can raise. \<open>ConnectionClosed\<close> is what a read
  raises when the stream ends before the read is satisfied; \<open>Fault n\<close> stands for
  an arbitrary exception raised by caller code inside a \<open>with\<close> block;
  \<open>DebuggerTrap\<close> is the \<open>pdb.set_trace()\<close> of \<open>_decode_response\<close>.
\<close>

datatype error =
    RedisError bytes
  | RedisTransactionError
  | LockNotAcquired
  | AssertionError
  | IndexError
  | ValueError
  | TypeError
  | UnicodeEncodeError
  | UnicodeDecodeError
  | ConnectionClosed
  | DebuggerTrap
  | Fault nat

text \<open>
  The connection: the bytes the server sends that are not read yet, the bytes written
  so far, and the wake signals fired while a reader is parked.
\<close>

record conn =
  inp :: bytes
  out :: bytes
  fired :: "ustr list"

type_synonym 'a proto = "conn \<Rightarrow> (error + 'a) \<times> conn"

definition returns :: "'a \<Rightarrow> 'a proto" where
  "returns v c = (Inr v, c)"

definition raises :: "error \<Rightarrow> 'a proto" where
  "raises e c = (Inl e, c)"

definition lift :: "error + 'a \<Rightarrow> 'a proto" where
  "lift r c = (r, c)"

text \<open>Sequencing: an exception in the first step skips the rest.\<close>

definition pbind :: "'a proto \<Rightarrow> ('a \<Rightarrow> 'b proto) \<Rightarrow> 'b proto" where
  "pbind m f c = (case m c of (Inl e, c1) \<Rightarrow> (Inl e, c1) | (Inr v, c1) \<Rightarrow> f v c1)"

definition CR :: char where "CR = CHR 0x0D"
definition LF :: char where "LF = CHR 0x0A"

definition crlf :: bytes where
  "crlf = [CR, LF]"

text \<open>Splitting a buffer at its first CRLF: the line before it and the rest after it.\<close>

fun split_crlf :: "bytes \<Rightarrow> (bytes \<times> bytes) option" where
  "split_crlf [] = None"
| "split_crlf [a] = None"
| "split_crlf (a # b # rest) =
     (if a = CR \<and> b = LF then Some ([], rest)
      else (case split_crlf (b # rest) of
              None \<Rightarrow> None
            | Some (l, r) \<Rightarrow> Some (a # l, r)))"

text \<open>
  Modelled from the spec: \<open>until_eol\<close>, \<open>receive\<close>, \<open>send\<close> and \<open>first\<close> of
  \<open>diesel.core\<close>, which is not among the sources. The spec's transport collaborator
  provides read-until-CRLF (returns the line including content, excluding the
  terminator), read-exactly-N-bytes and write-bytes, and a wait that a wake signal
  interrupts. A read that the remaining stream cannot satisfy raises
  \<open>ConnectionClosed\<close>.
\<close>

definition until_eol :: "bytes proto" where
  "until_eol c =
     (case split_crlf (inp c) of
        None \<Rightarrow> (Inl ConnectionClosed, c)
      | Some (line, rest) \<Rightarrow> (Inr line, c\<lparr>inp := rest\<rparr>))"

definition receive :: "int \<Rightarrow> bytes proto" where
  "receive n c =
     (if n < 0 then (Inl ValueError, c)
      else if int (length (inp c)) < n then (Inl ConnectionClosed, c)
      else (Inr (take (nat n) (inp c)), c\<lparr>inp := drop (nat n) (inp c)\<rparr>))"

definition send :: "bytes \<Rightarrow> unit proto" where
  "send b c = (Inr (), c\<lparr>out := out c @ b\<rparr>)"

text \<open>
  \<open>first(until_eol=True, waits=[wake_sig])\<close>: \<open>Some line\<close> for the event
  \<open>'until_eol'\<close>, \<open>None\<close> when the wake signal won.
\<close>

definition first_until_eol :: "ustr \<Rightarrow> (bytes option) proto" where
  "first_until_eol wake_sig c =
     (case split_crlf (inp c) of
        Some (line, rest) \<Rightarrow> (Inr (Some line), c\<lparr>inp := rest\<rparr>)
      | None \<Rightarrow>
          (if wake_sig \<in> set (fired c) then (Inr None, c\<lparr>fired := removeAll wake_sig (fired c)\<rparr>)
           else (Inl ConnectionClosed, c)))"

section \<open>Python's bytes.strip, int and str on integers\<close>

definition is_space :: "char \<Rightarrow> bool" where
  "is_space ch = (ch \<in> {CHR 0x20, CHR 0x09, CHR 0x0A, CHR 0x0D, CHR 0x0B, CHR 0x0C})"

definition strip :: "bytes \<Rightarrow> bytes" where
  "strip b = rev (dropWhile is_space (rev (dropWhile is_space b)))"

definition is_digit :: "char \<Rightarrow> bool" where
  "is_digit ch = (48 \<le> (of_char ch :: nat) \<and> (of_char ch :: nat) \<le> 57)"

definition digit_val :: "char \<Rightarrow> nat" where
  "digit_val ch = of_char ch - 48"

text \<open>
  The digits of an integer literal after its first digit: further digits, each
  optionally preceded by one underscore.
\<close>

fun digits_value :: "nat \<Rightarrow> bytes \<Rightarrow> nat option" where
  "digits_value acc [] = Some acc"
| "digits_value acc (ch # cs) =
     (if is_digit ch then digits_value (10 * acc + digit_val ch) cs
      else if ch = CHR ''_'' then
        (case cs of
           [] \<Rightarrow> None
         | d # ds \<Rightarrow> if is_digit d then digits_value (10 * acc + digit_val d) ds else None)
      else None)"

definition parse_nat :: "bytes \<Rightarrow> nat option" where
  "parse_nat b =
     (case b of
        [] \<Rightarrow> None
      | ch # cs \<Rightarrow> if is_digit ch then digits_value (digit_val ch) cs else None)"

text \<open>\<open>int(b)\<close> on a byte string: surrounding whitespace, an optional sign, digits.\<close>

definition py_int :: "bytes \<Rightarrow> error + int" where
  "py_int b =
     (case strip b of
        [] \<Rightarrow> Inl ValueError
      | ch # cs \<Rightarrow>
          (if ch = CHR ''-'' then
             (case parse_nat cs of None \<Rightarrow> Inl ValueError | Some n \<Rightarrow> Inr (- int n))
           else if ch = CHR ''+'' then
             (case parse_nat cs of None \<Rightarrow> Inl ValueError | Some n \<Rightarrow> Inr (int n))
           else
             (case parse_nat (ch # cs) of None \<Rightarrow> Inl ValueError | Some n \<Rightarrow> Inr (int n))))"

text \<open>\<open>str(n)\<close> for an integer, as ASCII characters.\<close>

definition digit_char :: "nat \<Rightarrow> char" where
  "digit_char d = char_of (48 + d)"

fun nat_digits :: "nat \<Rightarrow> string" where
  "nat_digits n =
     (if n < 10 then [digit_char n] else nat_digits (n div 10) @ [digit_char (n mod 10)])"

declare nat_digits.simps [simp del]

definition decimal :: "int \<Rightarrow> string" where
  "decimal i = (if i < 0 then CHR ''-'' # nat_digits (nat (- i)) else nat_digits (nat i))"

section \<open>The client and its reply decoder\<close>

text \<open>
  The client's configuration. \<open>encoding cl s\<close> is
  \<open>s.encode(self.encoding, self.encoding_errors)\<close> and \<open>decoding cl b\<close> is
  \<open>b.decode(self.encoding)\<close>; \<open>None\<close> is the codec's exception.
\<close>

record client =
  encoding :: "ustr \<Rightarrow> bytes option"
  decoding :: "bytes \<Rightarrow> ustr option"
  decode_responses :: bool

definition RedisClient_decode_response :: "client \<Rightarrow> pyval \<Rightarrow> error + pyval" where
  "RedisClient_decode_response cl resp =
     (case resp of
        PBytes b \<Rightarrow>
          (if decode_responses cl then
             (case decoding cl b of None \<Rightarrow> Inl UnicodeDecodeError | Some s \<Rightarrow> Inr (PStr s))
           else Inr resp)
      | PStr s \<Rightarrow> Inr resp
      | PNone \<Rightarrow> Inr resp
      | _ \<Rightarrow> Inl DebuggerTrap)"

text \<open>
  The loop \<open>for x in range(count)\<close> of \<open>_get_response\<close>, reading one array
  element per round and appending it to \<open>resp\<close>.
\<close>

definition read_element :: "client \<Rightarrow> pyval proto" where
  "read_element cl =
     pbind until_eol (\<lambda>hl.
       (case hl of
          [] \<Rightarrow> raises IndexError
        | c_hl # body \<Rightarrow>
            if c_hl \<notin> {CHR ''$'', CHR '':'', CHR ''+''} then raises AssertionError
            else if c_hl = CHR ''$'' then
              pbind (lift (py_int body)) (\<lambda>l.
                if l = - 1 then returns PNone
                else
                  pbind (receive l) (\<lambda>b.
                  pbind (lift (RedisClient_decode_response cl (PBytes b))) (\<lambda>v.
                  pbind until_eol (\<lambda>_. returns v))))
            else if c_hl = CHR '':'' then
              pbind (lift (py_int body)) (\<lambda>i. returns (PInt i))
            else
              lift (RedisClient_decode_response cl (PBytes (strip body)))))"

fun read_elements :: "client \<Rightarrow> nat \<Rightarrow> pyval list \<Rightarrow> (pyval list) proto" where
  "read_elements cl 0 resp = returns resp"
| "read_elements cl (Suc n) resp =
     pbind (read_element cl) (\<lambda>v. read_elements cl n (resp @ [v]))"

text \<open>\<open>wake_sig\<close> is \<open>None\<close> or the name of a signal; an empty name is falsy.\<close>

definition RedisClient_get_response :: "client \<Rightarrow> ustr option \<Rightarrow> pyval proto" where
  "RedisClient_get_response cl wake_sig =
     pbind
       (case wake_sig of
          None \<Rightarrow> pbind until_eol (\<lambda>l. returns (Some l))
        | Some w \<Rightarrow> if w = [] then pbind until_eol (\<lambda>l. returns (Some l)) else first_until_eol w)
       (\<lambda>ev.
          case ev of
            None \<Rightarrow> returns PNone
          | Some val \<Rightarrow>
              (case strip val of
                 [] \<Rightarrow> raises IndexError
               | c # rest \<Rightarrow>
                   if c = CHR ''+'' then lift (RedisClient_decode_response cl (PBytes rest))
                   else if c = CHR ''$'' then
                     pbind (lift (py_int rest)) (\<lambda>l.
                       if l = - 1 then lift (RedisClient_decode_response cl PNone)
                       else
                         pbind (receive l) (\<lambda>resp.
                         pbind until_eol (\<lambda>_.
                         lift (RedisClient_decode_response cl (PBytes resp)))))
                   else if c = CHR ''*'' then
                     pbind (lift (py_int rest)) (\<lambda>count.
                       if count = - 1 then returns PNone
                       else pbind (read_elements cl (nat count) []) (\<lambda>resp. returns (PList resp)))
                   else if c = CHR '':'' then
                     pbind (lift (py_int rest)) (\<lambda>i. returns (PInt i))
                   else if c = CHR ''-'' then raises (RedisError rest)
                   else returns PNone))"

section \<open>Encoding and sending commands\<close>

text \<open>
  An argument of a command, by the type tests of \<open>_encode\<close>: a byte string, an
  integer, a float (carried as its \<open>repr\<close>), a text, or any other object (carried
  as its \<open>str\<close>).
\<close>

datatype pyarg =
    ArgBytes bytes
  | ArgInt int
  | ArgFloat ustr
  | ArgStr ustr
  | ArgObj ustr

definition encode_str :: "client \<Rightarrow> ustr \<Rightarrow> error + bytes" where
  "encode_str cl s = (case encoding cl s of None \<Rightarrow> Inl UnicodeEncodeError | Some b \<Rightarrow> Inr b)"

fun RedisClient_encode :: "client \<Rightarrow> pyarg \<Rightarrow> error + bytes" where
  "RedisClient_encode cl (ArgBytes b) = Inr b"
| "RedisClient_encode cl (ArgInt i) = encode_str cl (ascii (decimal i))"
| "RedisClient_encode cl (ArgFloat r) = encode_str cl r"
| "RedisClient_encode cl (ArgObj s) = encode_str cl s"
| "RedisClient_encode cl (ArgStr s) = encode_str cl s"

text \<open>\<open>tuple(map(self._encode, (cmd,) + args))\<close>: the first failure is raised.\<close>

fun encode_all :: "client \<Rightarrow> pyarg list \<Rightarrow> error + bytes list" where
  "encode_all cl [] = Inr []"
| "encode_all cl (v # vs) =
     (case RedisClient_encode cl v of
        Inl e \<Rightarrow> Inl e
      | Inr b \<Rightarrow> (case encode_all cl vs of Inl e \<Rightarrow> Inl e | Inr bs \<Rightarrow> Inr (b # bs)))"

text \<open>The loop \<open>for i in all: send(...)\<close> of \<open>_send\<close>.\<close>

fun send_each :: "bytes list \<Rightarrow> unit proto" where
  "send_each [] = returns ()"
| "send_each (i # rest) =
     pbind (send (''$'' @ decimal (int (length i)) @ crlf @ i @ crlf)) (\<lambda>_. send_each rest)"

text \<open>\<open>kw_list\<close> is the keyword argument \<open>list=\<close>, which replaces \<open>args\<close>.\<close>

definition RedisClient_send :: "client \<Rightarrow> pyarg \<Rightarrow> pyarg list \<Rightarrow> pyarg list option \<Rightarrow> unit proto" where
  "RedisClient_send cl cmd args kw_list =
     (let args1 = (case kw_list of Some l \<Rightarrow> l | None \<Rightarrow> args) in
      pbind (lift (encode_all cl (cmd # args1))) (\<lambda>all.
      pbind (send (''*'' @ decimal (int (length all)) @ crlf)) (\<lambda>_.
      send_each all)))"

text \<open>
  The wire format as the specification words it: \<open>*<N>\r\n\<close>, then for each element
  \<open>$<len>\r\n<bytes>\r\n\<close>. Used only to compare \<open>_send\<close> with.
\<close>

definition spec_bulk :: "bytes \<Rightarrow> bytes" where
  "spec_bulk b = ''$'' @ decimal (int (length b)) @ crlf @ b @ crlf"

definition spec_Encode :: "bytes list \<Rightarrow> bytes" where
  "spec_Encode elems = ''*'' @ decimal (int (length elems)) @ crlf @ concat (map spec_bulk elems)"

section \<open>Command methods\<close>

definition cmd_name :: "string \<Rightarrow> pyarg" where
  "cmd_name s = ArgStr (ascii s)"

definition RedisClient_delete :: "client \<Rightarrow> pyarg \<Rightarrow> pyval proto" where
  "RedisClient_delete cl k =
     pbind (RedisClient_send cl (cmd_name ''DEL'') [k] None) (\<lambda>_.
     pbind (RedisClient_get_response cl None) (\<lambda>resp. returns (PBool (truthy resp))))"

definition RedisClient_expire :: "client \<Rightarrow> pyarg \<Rightarrow> pyarg \<Rightarrow> pyval proto" where
  "RedisClient_expire cl k seconds =
     pbind (RedisClient_send cl (cmd_name ''EXPIRE'') [k, seconds] None) (\<lambda>_.
     pbind (RedisClient_get_response cl None) (\<lambda>resp. returns resp))"

text \<open>\<open>move\<close> sends and returns without reading a reply.\<close>

definition RedisClient_move :: "client \<Rightarrow> pyarg \<Rightarrow> pyarg \<Rightarrow> pyval proto" where
  "RedisClient_move cl k idx =
     pbind (RedisClient_send cl (cmd_name ''MOVE'') [k, idx] None) (\<lambda>_. returns PNone)"

definition RedisClient_multi :: "client \<Rightarrow> pyval proto" where
  "RedisClient_multi cl =
     pbind (RedisClient_send cl (cmd_name ''MULTI'') [] None) (\<lambda>_.
     RedisClient_get_response cl None)"

definition RedisClient_exec :: "client \<Rightarrow> pyval proto" where
  "RedisClient_exec cl =
     pbind (RedisClient_send cl (cmd_name ''EXEC'') [] None) (\<lambda>_.
     RedisClient_get_response cl None)"

definition RedisClient_discard :: "client \<Rightarrow> pyval proto" where
  "RedisClient_discard cl =
     pbind (RedisClient_send cl (cmd_name ''DISCARD'') [] None) (\<lambda>_.
     RedisClient_get_response cl None)"

definition RedisClient_watch :: "client \<Rightarrow> pyarg list \<Rightarrow> pyval proto" where
  "RedisClient_watch cl keys =
     pbind (RedisClient_send cl (cmd_name ''WATCH'') [] (Some keys)) (\<lambda>_.
     RedisClient_get_response cl None)"

definition RedisClient_get :: "client \<Rightarrow> pyarg \<Rightarrow> pyval proto" where
  "RedisClient_get cl k =
     pbind (RedisClient_send cl (cmd_name ''GET'') [k] None) (\<lambda>_.
     pbind (RedisClient_get_response cl None) (\<lambda>resp. returns resp))"

definition RedisClient_setex :: "client \<Rightarrow> pyarg \<Rightarrow> pyarg \<Rightarrow> pyarg \<Rightarrow> pyval proto" where
  "RedisClient_setex cl k tm v =
     pbind (RedisClient_send cl (cmd_name ''SETEX'') [k, tm, v] None) (\<lambda>_.
     pbind (RedisClient_get_response cl None) (\<lambda>resp. returns resp))"


definition RedisClient_unsubscribe :: "client \<Rightarrow> pyarg list \<Rightarrow> pyval proto" where
  "RedisClient_unsubscribe cl channels =
     pbind (RedisClient_send cl (cmd_name ''UNSUBSCRIBE'') channels None) (\<lambda>_. returns PNone)"

definition RedisClient_psubscribe :: "client \<Rightarrow> pyarg list \<Rightarrow> pyval proto" where
  "RedisClient_psubscribe cl channels =
     pbind (RedisClient_send cl (cmd_name ''PSUBSCRIBE'') channels None) (\<lambda>_. returns PNone)"

definition RedisClient_punsubscribe :: "client \<Rightarrow> pyarg list \<Rightarrow> pyval proto" where
  "RedisClient_punsubscribe cl channels =
     pbind (RedisClient_send cl (cmd_name ''PUNSUBSCRIBE'') channels None) (\<lambda>_. returns PNone)"

section \<open>Waiting for published messages\<close>

text \<open>\<open>r[i]\<close> and \<open>r[i:]\<close> for a non-negative index.\<close>

definition subscript :: "pyval \<Rightarrow> nat \<Rightarrow> error + pyval" where
  "subscript r i =
     (case r of
        PList xs \<Rightarrow> if i < length xs then Inr (xs ! i) else Inl IndexError
      | PBytes b \<Rightarrow> if i < length b then Inr (PInt (of_char (b ! i))) else Inl IndexError
      | PStr s \<Rightarrow> if i < length s then Inr (PStr [s ! i]) else Inl IndexError
      | _ \<Rightarrow> Inl TypeError)"

definition slice_from :: "pyval \<Rightarrow> nat \<Rightarrow> error + pyval" where
  "slice_from r i =
     (case r of
        PList xs \<Rightarrow> Inr (PList (drop i xs))
      | PBytes b \<Rightarrow> Inr (PBytes (drop i b))
      | PStr s \<Rightarrow> Inr (PStr (drop i s))
      | _ \<Rightarrow> Inl TypeError)"

text \<open>\<open>[a] + b\<close>: list concatenation; a list plus anything else is a TypeError.\<close>

definition list_plus :: "pyval list \<Rightarrow> pyval \<Rightarrow> error + pyval" where
  "list_plus xs r = (case r of PList ys \<Rightarrow> Inr (PList (xs @ ys)) | _ \<Rightarrow> Inl TypeError)"

text \<open>A step that only consumes input: it never leaves more unread bytes than it found.\<close>

definition reads_only :: "'a proto \<Rightarrow> bool" where
  "reads_only m = (\<forall>c. length (inp (snd (m c))) \<le> length (inp c))"

text \<open>The loop \<open>while True\<close> of \<open>get_from_subscriptions\<close>; each round reads one reply.\<close>

function get_from_subscriptions :: "client \<Rightarrow> ustr option \<Rightarrow> pyval proto" where
  "get_from_subscriptions cl wake_sig c =
     (case RedisClient_get_response cl wake_sig c of
        (Inl e, c1) \<Rightarrow> (Inl e, c1)
      | (Inr r, c1) \<Rightarrow>
          if truthy r then
            (case subscript r 0 of
               Inl e \<Rightarrow> (Inl e, c1)
             | Inr r0 \<Rightarrow>
                 if r0 = PBytes ''message'' then
                   (case subscript r 1 of
                      Inl e \<Rightarrow> (Inl e, c1)
                    | Inr r1 \<Rightarrow>
                        (case slice_from r 1 of
                           Inl e \<Rightarrow> (Inl e, c1)
                         | Inr rest \<Rightarrow> (list_plus [r1] rest, c1)))
                 else if r0 = PBytes ''pmessage'' then (slice_from r 1, c1)
                 else get_from_subscriptions cl wake_sig c1)
          else (Inr PNone, c1))"
  by pat_completeness auto
termination
proof (relation "measure (\<lambda>(cl, w, c). length (inp c))")
  show "wf (measure (\<lambda>(cl :: client, w :: ustr option, c). length (inp c)))"
    by simp
next
  fix cl wake_sig c and x :: "error + pyval" and y b and ba :: pyval
  assume g0: "(x, y) = RedisClient_get_response cl wake_sig c" and x: "x = Inr b"
    and t: "truthy b"
  have g: "(Inr b, y) = RedisClient_get_response cl wake_sig c"
    using g0 x by simp
  have split: "split_crlf xs = Some (l, r) \<Longrightarrow> length r < length xs" for xs l r
    by (induction xs arbitrary: l rule: split_crlf.induct) (auto split: if_splits option.splits)
  have bindI: "reads_only m \<Longrightarrow> (\<And>v. reads_only (f v)) \<Longrightarrow> reads_only (pbind m f)"
    for m :: "'x proto" and f :: "'x \<Rightarrow> 'y proto"
  proof -
    assume m: "reads_only m" and f: "\<And>v. reads_only (f v)"
    show "reads_only (pbind m f)"
      unfolding reads_only_def
    proof
      fix c
      obtain r c1 where mc: "m c = (r, c1)" by (cases "m c")
      have le1: "length (inp c1) \<le> length (inp c)"
        using m mc by (auto simp: reads_only_def dest: spec [where x = c])
      show "length (inp (snd (pbind m f c))) \<le> length (inp c)"
      proof (cases r)
        case (Inl e)
        then show ?thesis using mc le1 by (simp add: pbind_def)
      next
        case (Inr v)
        have "length (inp (snd (f v c1))) \<le> length (inp c1)"
          using f [of v] by (simp add: reads_only_def)
        then show ?thesis using mc Inr le1 by (simp add: pbind_def)
      qed
    qed
  qed
  have ret: "reads_only (returns v)" for v :: 'x
    by (simp add: reads_only_def returns_def)
  have rai: "reads_only (raises e :: 'x proto)" for e
    by (simp add: reads_only_def raises_def)
  have lif: "reads_only (lift r)" for r :: "error + 'x"
    by (simp add: reads_only_def lift_def)
  have ue: "reads_only until_eol"
    using split by (fastforce simp: reads_only_def until_eol_def split: option.splits)
  have rcv: "reads_only (receive n)" for n
    by (simp add: reads_only_def receive_def)
  have elt: "reads_only (read_element cl)"
    unfolding read_element_def
    by (intro bindI ue) (auto split: list.splits intro!: bindI ret rai lif rcv ue)
  have elts: "reads_only (read_elements cl n acc)" for n acc
    by (induction n arbitrary: acc) (auto intro!: bindI ret elt)
  have step: "length (inp y) < length (inp c)"
    if run: "pbind F K c = (Inr b, y)"
      and first: "\<And>ev c1. F c = (Inr ev, c1) \<Longrightarrow> ev = None \<or> length (inp c1) < length (inp c)"
      and woken: "K None = returns PNone"
      and rest: "\<And>v. reads_only (K (Some v))"
    for F :: "(bytes option) proto" and K
  proof -
    obtain r c1 where fc: "F c = (r, c1)" by (cases "F c")
    show ?thesis
    proof (cases r)
      case (Inl e)
      then show ?thesis using run fc by (simp add: pbind_def)
    next
      case (Inr ev)
      show ?thesis
      proof (cases ev)
        case None
        then show ?thesis using run fc Inr woken t by (auto simp: pbind_def returns_def)
      next
        case (Some v)
        have "length (inp c1) < length (inp c)"
          using first [of ev c1] fc Inr Some by simp
        moreover have "length (inp (snd (K (Some v) c1))) \<le> length (inp c1)"
          using rest [of v] by (simp add: reads_only_def)
        ultimately show ?thesis using run fc Inr Some by (simp add: pbind_def)
      qed
    qed
  qed
  have "length (inp y) < length (inp c)"
    apply (rule step [OF g [symmetric, unfolded RedisClient_get_response_def]])
    subgoal for ev c1
      using split
      by (cases wake_sig)
         (auto simp: pbind_def until_eol_def returns_def first_until_eol_def
               split: option.splits if_splits)
    subgoal by simp
    subgoal for v
      by (auto split: list.splits if_splits intro!: bindI ret rai lif rcv ue elts)
    done
  then show "((cl, wake_sig, y), (cl, wake_sig, c)) \<in> measure (\<lambda>(cl, w, c). length (inp c))"
    by simp
qed

declare get_from_subscriptions.simps [simp del]

section \<open>Transactions\<close>

text \<open>
  The attributes of a \<open>RedisTransaction\<close>; \<open>txn_value\<close> is the attribute
  \<open>value\<close>. The client is passed to each method.
\<close>

record transaction =
  txn_value :: pyval
  watching :: "pyarg list"
  aborted :: bool

definition RedisTransaction_init :: "client \<Rightarrow> pyarg list \<Rightarrow> transaction proto" where
  "RedisTransaction_init cl watch_keys =
     (let t = \<lparr>txn_value = PNone, watching = watch_keys, aborted = False\<rparr> in
      if watch_keys \<noteq> [] then pbind (RedisClient_watch cl watch_keys) (\<lambda>_. returns t)
      else returns t)"

text \<open>\<open>transaction(watch=None)\<close>: \<open>RedisTransaction(self, watch or [])\<close>.\<close>

definition RedisClient_transaction :: "client \<Rightarrow> pyarg list option \<Rightarrow> transaction proto" where
  "RedisClient_transaction cl watch =
     RedisTransaction_init cl (case watch of None \<Rightarrow> [] | Some w \<Rightarrow> if w = [] then [] else w)"

definition RedisTransaction_enter :: "client \<Rightarrow> transaction \<Rightarrow> transaction proto" where
  "RedisTransaction_enter cl t = pbind (RedisClient_multi cl) (\<lambda>_. returns t)"

text \<open>
  \<open>__exit__(exc_type, exc_val, exc_tb)\<close>: \<open>exc\<close> is the exception the block
  raised, if any. The result is the exception \<open>__exit__\<close> raises or the value it
  returns, with the transaction's attributes and the connection afterwards.
\<close>

definition RedisTransaction_exit ::
  "client \<Rightarrow> transaction \<Rightarrow> error option \<Rightarrow> conn \<Rightarrow> (error + bool) \<times> transaction \<times> conn" where
  "RedisTransaction_exit cl t exc c =
     (if exc \<noteq> None then
        (case RedisClient_discard cl c of
           (Inl e, c1) \<Rightarrow> (Inl e, t, c1)
         | (Inr _, c1) \<Rightarrow> (Inr False, t\<lparr>aborted := True\<rparr>, c1))
      else
        (case RedisClient_exec cl c of
           (Inl e, c1) \<Rightarrow> (Inl e, t, c1)
         | (Inr v, c1) \<Rightarrow>
             if v = PNone then (Inl RedisTransactionError, t\<lparr>txn_value := v, aborted := True\<rparr>, c1)
             else (Inr False, t\<lparr>txn_value := v\<rparr>, c1)))"

text \<open>
  Python's \<open>with trans as t: body\<close>: \<open>__enter__\<close>, the body, then \<open>__exit__\<close>
  with the body's exception; that exception propagates unless \<open>__exit__\<close> returns a
  true value, and an exception of \<open>__exit__\<close> itself replaces it.
\<close>

definition with_transaction ::
  "client \<Rightarrow> transaction \<Rightarrow> (transaction \<Rightarrow> unit proto) \<Rightarrow> conn
     \<Rightarrow> (error + unit) \<times> transaction \<times> conn" where
  "with_transaction cl txn body c =
     (case RedisTransaction_enter cl txn c of
        (Inl e, c1) \<Rightarrow> (Inl e, txn, c1)
      | (Inr t, c1) \<Rightarrow>
          (case body t c1 of
             (Inl e, c2) \<Rightarrow>
               (case RedisTransaction_exit cl t (Some e) c2 of
                  (Inl e2, t2, c3) \<Rightarrow> (Inl e2, t2, c3)
                | (Inr swallow, t2, c3) \<Rightarrow> (if swallow then Inr () else Inl e, t2, c3))
           | (Inr _, c2) \<Rightarrow>
               (case RedisTransaction_exit cl t None c2 of
                  (Inl e2, t2, c3) \<Rightarrow> (Inl e2, t2, c3)
                | (Inr _, t2, c3) \<Rightarrow> (Inr (), t2, c3))))"

section \<open>The lock\<close>

text \<open>
  The attributes of a \<open>RedisLock\<close>. \<open>me\<close> is the token \<open>uuid.uuid4().bytes\<close>
  drawn when the lock object is made; \<open>in_block\<close> is \<open>None\<close> until it is first
  assigned; \<open>forked\<close> counts the renewal tasks started with \<open>fork(touch)\<close>.
\<close>

record lock =
  key :: bytes
  timeout :: int
  me :: bytes
  in_block :: "bool option"
  forked :: nat

definition RedisLock_init :: "bytes \<Rightarrow> int \<Rightarrow> bytes \<Rightarrow> error + lock" where
  "RedisLock_init k tm token =
     (if \<not> 2 \<le> tm then Inl AssertionError
      else Inr \<lparr>key = k, timeout = tm, me = token, in_block = None, forked = 0\<rparr>)"

definition RedisLock_enter :: "client \<Rightarrow> lock \<Rightarrow> conn \<Rightarrow> (error + unit) \<times> lock \<times> conn" where
  "RedisLock_enter cl lk c =
     (case RedisClient_transaction cl (Some [ArgBytes (key lk)]) c of
        (Inl e, c1) \<Rightarrow> (Inl e, lk, c1)
      | (Inr txn, c1) \<Rightarrow>
          (case RedisClient_get cl (ArgBytes (key lk)) c1 of
             (Inl e, c2) \<Rightarrow> (Inl e, lk, c2)
           | (Inr v, c2) \<Rightarrow>
               if truthy v then (Inl LockNotAcquired, lk, c2)
               else
                 (case with_transaction cl txn
                         (\<lambda>t. pbind (RedisClient_setex cl (ArgBytes (key lk)) (ArgInt (timeout lk))
                                        (ArgBytes (me lk)))
                                 (\<lambda>_. returns ())) c2 of
                    (Inl e, t2, c3) \<Rightarrow>
                      (if e = RedisTransactionError then Inl LockNotAcquired else Inl e, lk, c3)
                  | (Inr _, t2, c3) \<Rightarrow>
                      (Inr (), lk\<lparr>in_block := Some True, forked := Suc (forked lk)\<rparr>, c3))))"

text \<open>
  \<open>__exit__\<close> of the lock. The message of the failing \<open>assert\<close> is built with a
  second \<open>get\<close> of the key, which runs only when the assertion fails.
\<close>

definition RedisLock_exit :: "client \<Rightarrow> lock \<Rightarrow> conn \<Rightarrow> (error + pyval) \<times> lock \<times> conn" where
  "RedisLock_exit cl lk c =
     (let lk1 = lk\<lparr>in_block := Some False\<rparr> in
      case RedisClient_get cl (ArgBytes (key lk)) c of
        (Inl e, c1) \<Rightarrow> (Inl e, lk1, c1)
      | (Inr val, c1) \<Rightarrow>
          if val = PBytes (me lk) then
            (case RedisClient_delete cl (ArgBytes (key lk)) c1 of
               (Inl e, c2) \<Rightarrow> (Inl e, lk1, c2)
             | (Inr _, c2) \<Rightarrow> (Inr PNone, lk1, c2))
          else
            (case RedisClient_get cl (ArgBytes (key lk)) c1 of
               (Inl e, c2) \<Rightarrow> (Inl e, lk1, c2)
             | (Inr _, c2) \<Rightarrow> (Inl AssertionError, lk1, c2)))"

section \<open>The subscription hub\<close>

text \<open>\<open>needle in hay\<close> on byte strings: \<open>needle\<close> occurs as a contiguous run.\<close>

fun bytes_in :: "bytes \<Rightarrow> bytes \<Rightarrow> bool" where
  "bytes_in needle [] = (needle = [])"
| "bytes_in needle (h # hs) = (take (length needle) (h # hs) = needle \<or> bytes_in needle hs)"

text \<open>
  \<open>__isglob\<close> returns the value of
  \<open>b'*' in glob or b'?' in glob or (b'[' in glob and b']' and glob)\<close>; its callers
  test that value for truth.
\<close>

definition RedisSubHub_isglob :: "bytes \<Rightarrow> pyval" where
  "RedisSubHub_isglob glob =
     (if bytes_in ''*'' glob then PBool True
      else if bytes_in ''?'' glob then PBool True
      else if \<not> bytes_in ''['' glob then PBool False
      else if \<not> truthy (PBytes '']'') then PBytes '']''
      else PBytes glob)"

text \<open>
  The classification as the specification words it: a channel is glob-match if it
  contains \<open>*\<close>, \<open>?\<close>, or a bracket pair. Used only to compare \<open>__isglob\<close> with.
\<close>

definition spec_isglob :: "bytes \<Rightarrow> bool" where
  "spec_isglob glob =
     (CHR ''*'' \<in> set glob \<or> CHR ''?'' \<in> set glob \<or> (CHR ''['' \<in> set glob \<and> CHR '']'' \<in> set glob))"

text \<open>
  The hub's bookkeeping while it drains \<open>sub_adds\<close>: the mapping \<open>subs\<close> from a
  channel to its queues, and the sets \<open>new_subs\<close> and \<open>new_glob_subs\<close> that go to
  \<open>subscribe\<close> and \<open>psubscribe\<close>. A queue is named by a number.
\<close>

record adds_state =
  subs :: "bytes \<rightharpoonup> nat set"
  new_subs :: "bytes set"
  new_glob_subs :: "bytes set"

fun drain_adds :: "(bytes \<times> nat) list \<Rightarrow> adds_state \<Rightarrow> adds_state" where
  "drain_adds [] st = st"
| "drain_adds ((k, q) # sa) st =
     drain_adds sa
       (case subs st k of
          None \<Rightarrow>
            (if truthy (RedisSubHub_isglob k)
             then st\<lparr>new_glob_subs := insert k (new_glob_subs st), subs := (subs st)(k \<mapsto> {q})\<rparr>
             else st\<lparr>new_subs := insert k (new_subs st), subs := (subs st)(k \<mapsto> {q})\<rparr>)
        | Some qs \<Rightarrow> st\<lparr>subs := (subs st)(k \<mapsto> insert q qs)\<rparr>)"

section \<open>Two concrete clients\<close>

text \<open>
  Clients configured with the codec \<open>latin-1\<close> (one byte per code point, strict
  errors): \<open>raw_client\<close> returns replies as bytes, \<open>text_client\<close> decodes them.
\<close>

definition latin1_encode :: "ustr \<Rightarrow> bytes option" where
  "latin1_encode s = (if list_all (\<lambda>n. n < 256) s then Some (map char_of s) else None)"

definition latin1_decode :: "bytes \<Rightarrow> ustr option" where
  "latin1_decode b = Some (map of_char b)"

definition raw_client :: client where
  "raw_client = \<lparr>encoding = latin1_encode, decoding = latin1_decode, decode_responses = False\<rparr>"

definition text_client :: client where
  "text_client = \<lparr>encoding = latin1_encode, decoding = latin1_decode, decode_responses = True\<rparr>"

text \<open>A step that writes nothing and fires nothing: it leaves \<open>out\<close> and \<open>fired\<close> alone.\<close>

definition silent :: "'a proto \<Rightarrow> bool" where
  "silent m = (\<forall>c. out (snd (m c)) = out c)"

section \<open>Evaluation rules\<close>

lemmas proto_defs = returns_def raises_def lift_def pbind_def until_eol_def receive_def send_def
  first_until_eol_def

lemmas lex_defs = crlf_def CR_def LF_def strip_def is_space_def is_digit_def digit_val_def
  parse_nat_def py_int_def

lemmas client_defs = raw_client_def text_client_def latin1_encode_def latin1_decode_def

section \<open>Decoding replies\<close>

text \<open>
  C5. Decoding \<open>$-1\r\n\<close> yields the nil value \<open>None\<close>, while \<open>$0\r\n\r\n\<close> yields
  the empty byte string, which is not \<open>None\<close> (with \<open>decode_responses\<close> it is the
  decoded empty string, never \<open>None\<close>); decoding \<open>*-1\r\n\<close> yields \<open>None\<close>, while
  \<open>*0\r\n\<close> yields the empty list. Each reply is consumed whole.
\<close>

theorem nil_replies_differ_from_empty_replies:
  "RedisClient_get_response cl None \<lparr>inp = ''$-1'' @ crlf, out = ob, fired = fs\<rparr>
     = (Inr PNone, \<lparr>inp = [], out = ob, fired = fs\<rparr>)
   \<and> RedisClient_get_response cl None \<lparr>inp = ''$0'' @ crlf @ crlf, out = ob, fired = fs\<rparr>
     = (if decode_responses cl
        then (case decoding cl [] of None \<Rightarrow> Inl UnicodeDecodeError | Some s \<Rightarrow> Inr (PStr s))
        else Inr (PBytes []),
        \<lparr>inp = [], out = ob, fired = fs\<rparr>)
   \<and> fst (RedisClient_get_response cl None \<lparr>inp = ''$0'' @ crlf @ crlf, out = ob, fired = fs\<rparr>)
     \<noteq> Inr PNone
   \<and> RedisClient_get_response cl None \<lparr>inp = ''*-1'' @ crlf, out = ob, fired = fs\<rparr>
     = (Inr PNone, \<lparr>inp = [], out = ob, fired = fs\<rparr>)
   \<and> RedisClient_get_response cl None \<lparr>inp = ''*0'' @ crlf, out = ob, fired = fs\<rparr>
     = (Inr (PList []), \<lparr>inp = [], out = ob, fired = fs\<rparr>)
   \<and> PList [] \<noteq> PNone \<and> PBytes [] \<noteq> PNone"
  by (simp add: RedisClient_get_response_def RedisClient_decode_response_def proto_defs lex_defs
           split: option.splits)

theorem nil_replies_differ_from_empty_replies_witness:
  "fst (RedisClient_get_response raw_client None \<lparr>inp = ''$-1'' @ crlf, out = [], fired = []\<rparr>)
     = Inr PNone
   \<and> fst (RedisClient_get_response raw_client None \<lparr>inp = ''$0'' @ crlf @ crlf, out = [], fired = []\<rparr>)
     = Inr (PBytes [])
   \<and> fst (RedisClient_get_response text_client None \<lparr>inp = ''$0'' @ crlf @ crlf, out = [], fired = []\<rparr>)
     = Inr (PStr [])
   \<and> fst (RedisClient_get_response raw_client None \<lparr>inp = ''*-1'' @ crlf, out = [], fired = []\<rparr>)
     = Inr PNone
   \<and> fst (RedisClient_get_response raw_client None \<lparr>inp = ''*0'' @ crlf, out = [], fired = []\<rparr>)
     = Inr (PList [])"
  using nil_replies_differ_from_empty_replies [where cl = raw_client and ob = "[]" and fs = "[]"]
    nil_replies_differ_from_empty_replies [where cl = text_client and ob = "[]" and fs = "[]"]
  by (simp add: client_defs)

text \<open>
  C8. Decoding \<open>*3\r\n:1\r\n$3\r\nfoo\r\n+OK\r\n\<close> yields the list of the integer 1,
  the bulk string \<open>foo\<close> and the simple string \<open>OK\<close>, in that order: as bytes
  without \<open>decode_responses\<close>, as the decoded texts with it.
\<close>

theorem array_reply_decodes_in_order:
  "(\<not> decode_responses cl \<longrightarrow>
      RedisClient_get_response cl None
        \<lparr>inp = ''*3'' @ crlf @ '':1'' @ crlf @ ''$3'' @ crlf @ ''foo'' @ crlf @ ''+OK'' @ crlf,
         out = ob, fired = fs\<rparr>
      = (Inr (PList [PInt 1, PBytes ''foo'', PBytes ''OK'']), \<lparr>inp = [], out = ob, fired = fs\<rparr>))
   \<and> (decode_responses cl \<and> decoding cl ''foo'' = Some foo \<and> decoding cl ''OK'' = Some ok \<longrightarrow>
      RedisClient_get_response cl None
        \<lparr>inp = ''*3'' @ crlf @ '':1'' @ crlf @ ''$3'' @ crlf @ ''foo'' @ crlf @ ''+OK'' @ crlf,
         out = ob, fired = fs\<rparr>
      = (Inr (PList [PInt 1, PStr foo, PStr ok]), \<lparr>inp = [], out = ob, fired = fs\<rparr>))"
  by (simp add: RedisClient_get_response_def RedisClient_decode_response_def read_element_def
        proto_defs lex_defs eval_nat_numeral)

theorem array_reply_decodes_in_order_witness:
  "RedisClient_get_response raw_client None
        \<lparr>inp = ''*3'' @ crlf @ '':1'' @ crlf @ ''$3'' @ crlf @ ''foo'' @ crlf @ ''+OK'' @ crlf,
         out = [], fired = []\<rparr>
      = (Inr (PList [PInt 1, PBytes ''foo'', PBytes ''OK'']), \<lparr>inp = [], out = [], fired = []\<rparr>)
   \<and> RedisClient_get_response text_client None
        \<lparr>inp = ''*3'' @ crlf @ '':1'' @ crlf @ ''$3'' @ crlf @ ''foo'' @ crlf @ ''+OK'' @ crlf,
         out = [], fired = []\<rparr>
      = (Inr (PList [PInt 1, PStr (ascii ''foo''), PStr (ascii ''OK'')]),
         \<lparr>inp = [], out = [], fired = []\<rparr>)"
  using array_reply_decodes_in_order [where cl = raw_client and ob = "[]" and fs = "[]"]
    array_reply_decodes_in_order [where cl = text_client and ob = "[]" and fs = "[]"
      and foo = "ascii ''foo''" and ok = "ascii ''OK''"]
  by (simp add: client_defs ascii_def)

section \<open>Encoding commands\<close>

lemma send_each_appends:
  "send_each bs c = (Inr (), c\<lparr>out := out c @ concat (map spec_bulk bs)\<rparr>)"
proof (induction bs arbitrary: c)
  case Nil
  then show ?case by (simp add: returns_def)
next
  case (Cons b bs)
  then show ?case by (simp add: pbind_def send_def spec_bulk_def)
qed

lemma encode_all_length: "encode_all cl vs = Inr bs \<Longrightarrow> length bs = length vs"
  by (induction vs arbitrary: bs) (auto split: sum.splits)

lemma encode_all_nth:
  "encode_all cl vs = Inr bs \<Longrightarrow> i < length vs \<Longrightarrow> RedisClient_encode cl (vs ! i) = Inr (bs ! i)"
proof (induction vs arbitrary: bs i)
  case Nil
  then show ?case by simp
next
  case (Cons v vs)
  then show ?case by (cases i) (auto split: sum.splits)
qed

lemma send_frames:
  "RedisClient_send cl cmd args kw c =
     (case encode_all cl (cmd # (case kw of Some l \<Rightarrow> l | None \<Rightarrow> args)) of
        Inl e \<Rightarrow> (Inl e, c)
      | Inr elems \<Rightarrow> (Inr (), c\<lparr>out := out c @ spec_Encode elems\<rparr>))"
  by (simp add: RedisClient_send_def Let_def pbind_def lift_def send_def send_each_appends
        spec_Encode_def split: sum.splits)

text \<open>
  C9. \<open>_send\<close> writes exactly \<open>*<N>\r\n\<close> followed, for each of the \<open>N\<close>
  elements in order, by \<open>$<len>\r\n<bytes>\r\n\<close>, where \<open>N\<close> is one more than the
  number of arguments and the elements are the command name and the arguments as
  \<open>_encode\<close> coerces them: bytes unchanged, an integer as its decimal text, a float
  as its \<open>repr\<close>, anything else as its \<open>str\<close>, each text encoded with the
  client's codec. Stated for a call whose elements all encode; otherwise the codec's
  exception is raised and nothing is written.
\<close>

theorem send_writes_multibulk_frame:
  assumes "encode_all cl (cmd # args) = Inr elems"
  shows "RedisClient_send cl cmd args None c = (Inr (), c\<lparr>out := out c @ spec_Encode elems\<rparr>)
    \<and> spec_Encode elems
        = ''*'' @ decimal (1 + int (length args)) @ crlf
          @ concat (map (\<lambda>b. ''$'' @ decimal (int (length b)) @ crlf @ b @ crlf) elems)
    \<and> length elems = 1 + length args
    \<and> (\<forall>i < length elems. RedisClient_encode cl ((cmd # args) ! i) = Inr (elems ! i))
    \<and> RedisClient_encode cl (ArgBytes b) = Inr b
    \<and> RedisClient_encode cl (ArgInt n) = encode_str cl (ascii (decimal n))
    \<and> RedisClient_encode cl (ArgFloat r) = encode_str cl r
    \<and> RedisClient_encode cl (ArgStr s) = encode_str cl s
    \<and> RedisClient_encode cl (ArgObj s) = encode_str cl s
    \<and> encode_str cl s = (case encoding cl s of None \<Rightarrow> Inl UnicodeEncodeError | Some e \<Rightarrow> Inr e)"
proof -
  have len: "length elems = Suc (length args)"
    using encode_all_length [OF assms] by simp
  have frame: "RedisClient_send cl cmd args None c = (Inr (), c\<lparr>out := out c @ spec_Encode elems\<rparr>)"
    using assms by (simp add: send_frames)
  have shape: "spec_Encode elems
        = ''*'' @ decimal (1 + int (length args)) @ crlf
          @ concat (map (\<lambda>b. ''$'' @ decimal (int (length b)) @ crlf @ b @ crlf) elems)"
  proof -
    have "spec_bulk = (\<lambda>b. ''$'' @ decimal (int (length b)) @ crlf @ b @ crlf)"
      by (rule ext) (simp add: spec_bulk_def)
    then show ?thesis using len by (simp add: spec_Encode_def add.commute)
  qed
  have elems: "\<forall>i < length elems. RedisClient_encode cl ((cmd # args) ! i) = Inr (elems ! i)"
    using encode_all_nth [OF assms] len by simp
  show ?thesis
    using len frame shape elems by (simp add: encode_str_def)
qed

theorem send_writes_multibulk_frame_witness:
  "encode_all raw_client [cmd_name ''SETEX'', ArgBytes ''k'', ArgInt 30, ArgStr (ascii ''v'')]
     = Inr [''SETEX'', ''k'', ''30'', ''v'']
   \<and> RedisClient_send raw_client (cmd_name ''SETEX'') [ArgBytes ''k'', ArgInt 30, ArgStr (ascii ''v'')]
        None \<lparr>inp = [], out = [], fired = []\<rparr>
     = (Inr (), \<lparr>inp = [],
          out = ''*4'' @ crlf @ ''$5'' @ crlf @ ''SETEX'' @ crlf @ ''$1'' @ crlf @ ''k'' @ crlf
                @ ''$2'' @ crlf @ ''30'' @ crlf @ ''$1'' @ crlf @ ''v'' @ crlf,
          fired = []\<rparr>)"
proof -
  have enc: "encode_all raw_client [cmd_name ''SETEX'', ArgBytes ''k'', ArgInt 30, ArgStr (ascii ''v'')]
     = Inr [''SETEX'', ''k'', ''30'', ''v'']"
    by (simp add: raw_client_def latin1_encode_def cmd_name_def ascii_def encode_str_def
          decimal_def nat_digits.simps digit_char_def char_of_def bit_0)
  show ?thesis
    using enc send_writes_multibulk_frame [OF enc, where c = "\<lparr>inp = [], out = [], fired = []\<rparr>"]
    by (simp add: spec_Encode_def spec_bulk_def decimal_def nat_digits.simps digit_char_def
          char_of_def bit_0)
qed

section \<open>Reading a reply writes nothing\<close>

lemma silent_pbind:
  assumes "silent m" and "\<And>v. silent (f v)"
  shows "silent (pbind m f)"
  unfolding silent_def
proof
  fix c
  obtain r c1 where mc: "m c = (r, c1)" by (cases "m c")
  have o1: "out c1 = out c"
    using assms(1) mc by (auto simp: silent_def dest: spec [where x = c])
  show "out (snd (pbind m f c)) = out c"
  proof (cases r)
    case (Inl e)
    then show ?thesis using mc o1 by (simp add: pbind_def)
  next
    case (Inr v)
    have "out (snd (f v c1)) = out c1"
      using assms(2) [of v] by (simp add: silent_def)
    then show ?thesis using mc Inr o1 by (simp add: pbind_def)
  qed
qed

lemma silent_basic:
  "silent (returns v)" "silent (raises e)" "silent (lift r)" "silent until_eol"
  "silent (receive n)" "silent (first_until_eol w)"
  by (simp_all add: silent_def proto_defs split: option.splits)

lemma silent_read_element: "silent (read_element cl)"
  unfolding read_element_def
  by (intro silent_pbind silent_basic)
     (auto split: list.splits if_splits intro!: silent_pbind silent_basic)

lemma silent_read_elements: "silent (read_elements cl n acc)"
  by (induction n arbitrary: acc) (auto intro!: silent_pbind silent_basic silent_read_element)

lemma silent_get_response: "silent (RedisClient_get_response cl wake_sig)"
  unfolding RedisClient_get_response_def
  by (auto split: list.splits if_splits option.splits
           intro!: silent_pbind silent_basic silent_read_elements)

lemma get_response_out: "RedisClient_get_response cl wake_sig c = (r, c1) \<Longrightarrow> out c1 = out c"
  using silent_get_response [of cl wake_sig] by (auto simp: silent_def dest: spec [where x = c])

section \<open>Error replies\<close>





lemma move_returns_without_reading:
  "RedisClient_move raw_client (ArgBytes ''k'') (ArgInt 1)
       \<lparr>inp = ''-ERR bad'' @ crlf, out = [], fired = []\<rparr>
     = (Inr PNone,
        \<lparr>inp = ''-ERR bad'' @ crlf,
         out = ''*3'' @ crlf @ ''$4'' @ crlf @ ''MOVE'' @ crlf @ ''$1'' @ crlf @ ''k'' @ crlf
               @ ''$1'' @ crlf @ ''1'' @ crlf,
         fired = []\<rparr>)"
  by (simp add: RedisClient_move_def send_frames raw_client_def latin1_encode_def cmd_name_def
        ascii_def encode_str_def pbind_def returns_def spec_Encode_def spec_bulk_def decimal_def
        nat_digits.simps digit_char_def char_of_def bit_0)

section \<open>Classifying channels\<close>

lemma bytes_in_single: "bytes_in [ch] g \<longleftrightarrow> ch \<in> set g"
  by (induction g) auto

lemma isglob_truth:
  "truthy (RedisSubHub_isglob g)
     \<longleftrightarrow> CHR ''*'' \<in> set g \<or> CHR ''?'' \<in> set g \<or> CHR ''['' \<in> set g"
  by (auto simp: RedisSubHub_isglob_def bytes_in_single)

lemma spec_isglob_implies_isglob: "spec_isglob g \<Longrightarrow> truthy (RedisSubHub_isglob g)"
  by (auto simp: isglob_truth spec_isglob_def)

lemma isglob_differs_from_spec:
  "truthy (RedisSubHub_isglob g) \<noteq> spec_isglob g
     \<longleftrightarrow> CHR ''['' \<in> set g \<and> CHR '']'' \<notin> set g \<and> CHR ''*'' \<notin> set g \<and> CHR ''?'' \<notin> set g"
  by (auto simp: isglob_truth spec_isglob_def)

text \<open>
  C7. The claim makes a channel glob-match only if it contains \<open>*\<close>, \<open>?\<close>, or both
  \<open>[\<close> and \<open>]\<close>. \<open>__isglob\<close> tests \<open>b'[' in glob and b']' and glob\<close>, so an
  opening bracket alone suffices: the channel \<open>a[\<close> is classified glob-match and put
  into \<open>new_glob_subs\<close>, the set that is sent with \<open>PSUBSCRIBE\<close>.
\<close>

theorem isglob_accepts_lone_open_bracket:
  "truthy (RedisSubHub_isglob ''a['')
   \<and> \<not> spec_isglob ''a[''
   \<and> new_glob_subs (drain_adds [(''a['', 0)] \<lparr>subs = Map.empty, new_subs = {}, new_glob_subs = {}\<rparr>)
       = {''a[''}
   \<and> new_subs (drain_adds [(''a['', 0)] \<lparr>subs = Map.empty, new_subs = {}, new_glob_subs = {}\<rparr>)
       = {}"
  by (simp add: RedisSubHub_isglob_def spec_isglob_def)

end
